theory Spec2Isabelle
  imports Complex_Main "HOL-Library.Sublist" "HOL-Library.Monad_Syntax"
begin

section \<open>Python values used by the ad-composition pipeline\<close>

text \<open>
  A Python \<open>str\<close> is modelled as a \<open>string\<close>; one \<open>char\<close> stands for one character
  of the Python string (the model covers the characters with code point below 256), so
  \<open>length\<close> and \<open>take\<close> count what \<open>len\<close> and slicing count. A call that raises is a
  \<open>None\<close> (or an \<open>Inl\<close> where the exception reaches the caller).
\<close>

type_synonym bytes = "nat list"

datatype py_exn = KeyError | IndexError | ValueError | BackendError string

text \<open>The characters \<open>str.strip()\<close> and \<open>str.split()\<close> treat as whitespace.\<close>

definition is_space :: "char \<Rightarrow> bool" where
  "is_space c \<longleftrightarrow> (of_char c :: nat) \<in> {9, 10, 11, 12, 13, 28, 29, 30, 31, 32, 133, 160}"

definition py_strip :: "string \<Rightarrow> string" where
  "py_strip s = rev (dropWhile is_space (rev (dropWhile is_space s)))"

text \<open>\<open>s.split()\<close>: the maximal runs of non-whitespace characters, in order.\<close>

fun split_acc :: "string \<Rightarrow> string \<Rightarrow> string list" where
  "split_acc cur [] = (if cur = [] then [] else [cur])"
| "split_acc cur (c # cs) =
     (if is_space c then (if cur = [] then split_acc [] cs else cur # split_acc [] cs)
      else split_acc (cur @ [c]) cs)"

definition py_split :: "string \<Rightarrow> string list" where
  "py_split s = split_acc [] s"

text \<open>\<open>d.get(k, '')\<close> and \<open>d[k]\<close> on the product dictionary.\<close>

type_synonym product_data = "string \<rightharpoonup> string"

definition get_or :: "product_data \<Rightarrow> string \<Rightarrow> string \<Rightarrow> string" where
  "get_or d k dflt = (case d k of None \<Rightarrow> dflt | Some v \<Rightarrow> v)"

section \<open>PaletteBuilder: \<open>generate_color_palette\<close>\<close>

subsection \<open>\<open>int(s, 16)\<close> and \<open>'{:02x}'.format(n)\<close>\<close>

definition hex_val :: "char \<Rightarrow> nat option" where
  "hex_val c =
     (let n = (of_char c :: nat) in
      if 48 \<le> n \<and> n \<le> 57 then Some (n - 48)
      else if 97 \<le> n \<and> n \<le> 102 then Some (n - 87)
      else if 65 \<le> n \<and> n \<le> 70 then Some (n - 55)
      else None)"

text \<open>Digits after the first one: a single underscore may stand between two digits.\<close>

fun hex_digits :: "nat \<Rightarrow> string \<Rightarrow> nat option" where
  "hex_digits acc [] = Some acc"
| "hex_digits acc (c # cs) =
     (if c = CHR ''_'' then
        (case cs of
           [] \<Rightarrow> None
         | d # ds \<Rightarrow> (case hex_val d of None \<Rightarrow> None | Some v \<Rightarrow> hex_digits (16 * acc + v) ds))
      else (case hex_val c of None \<Rightarrow> None | Some v \<Rightarrow> hex_digits (16 * acc + v) cs))"

text \<open>The whitespace \<open>int()\<close> skips around the literal (it differs from that of \<open>strip\<close>).\<close>

definition int_space :: "char \<Rightarrow> bool" where
  "int_space c \<longleftrightarrow> (of_char c :: nat) \<in> {9, 10, 11, 12, 13, 32, 133, 160}"

definition skip_prefix :: "string \<Rightarrow> string" where
  "skip_prefix t =
     (case t of
        c0 # c1 # r \<Rightarrow>
          (if c0 = CHR ''0'' \<and> (c1 = CHR ''x'' \<or> c1 = CHR ''X'')
           then (case r of u # r' \<Rightarrow> (if u = CHR ''_'' then r' else r) | [] \<Rightarrow> r)
           else t)
      | _ \<Rightarrow> t)"

text \<open>\<open>int(s, 16)\<close>; \<open>None\<close> is the \<open>ValueError\<close>.\<close>

definition py_int16 :: "string \<Rightarrow> int option" where
  "py_int16 s =
     (let t = rev (dropWhile int_space (rev (dropWhile int_space s)));
          neg = (case t of c # _ \<Rightarrow> c = CHR ''-'' | [] \<Rightarrow> False);
          t1 = (case t of c # r \<Rightarrow> (if c = CHR ''-'' \<or> c = CHR ''+'' then r else t) | [] \<Rightarrow> t);
          t2 = skip_prefix t1
      in case t2 of
           [] \<Rightarrow> None
         | c # _ \<Rightarrow>
             (case hex_val c of
                None \<Rightarrow> None
              | Some _ \<Rightarrow>
                  (case hex_digits 0 t2 of
                     None \<Rightarrow> None
                   | Some v \<Rightarrow> Some (if neg then - int v else int v))))"

definition hex_char :: "nat \<Rightarrow> char" where
  "hex_char d = ''0123456789abcdef'' ! (d mod 16)"

fun to_hex :: "nat \<Rightarrow> string" where
  "to_hex n = (if n < 16 then [hex_char n] else to_hex (n div 16) @ [hex_char (n mod 16)])"

declare to_hex.simps [simp del]

text \<open>\<open>'{:02x}'.format(n)\<close>: zero padding to width 2; the sign counts for the width.\<close>

definition format_02x :: "int \<Rightarrow> string" where
  "format_02x n =
     (if n < 0 then CHR ''-'' # to_hex (nat (- n))
      else let h = to_hex (nat n) in replicate (2 - length h) CHR ''0'' @ h)"

subsection \<open>The palette\<close>

type_synonym rgb = "int \<times> int \<times> int"

text \<open>\<open>tuple(int(hex_color[i:i+2], 16) for i in (1, 3, 5))\<close>\<close>

definition hex_to_rgb :: "string \<Rightarrow> rgb option" where
  "hex_to_rgb hex_color =
     do {
       r \<leftarrow> py_int16 (take 2 (drop 1 hex_color));
       g \<leftarrow> py_int16 (take 2 (drop 3 hex_color));
       b \<leftarrow> py_int16 (take 2 (drop 5 hex_color));
       Some (r, g, b)
     }"

definition rgb_to_hex :: "rgb \<Rightarrow> string" where
  "rgb_to_hex c = (case c of (r, g, b) \<Rightarrow> CHR ''#'' # format_02x r @ format_02x g @ format_02x b)"

record palette =
  primary :: string
  light :: string
  dark :: string
  complement :: string
  neutral :: string

definition default_palette :: palette where
  "default_palette =
     \<lparr>primary = ''#4a90e2'', light = ''#87ceeb'', dark = ''#2c5aa0'',
      complement = ''#e24a4a'', neutral = ''#f8f9fa''\<rparr>"

text \<open>The body of the \<open>try\<close>: \<open>dominant_colors[0]\<close> and \<open>int(..., 16)\<close> may raise.\<close>

definition palette_body :: "string list \<Rightarrow> palette option" where
  "palette_body dominant_colors =
     do {
       main_color \<leftarrow> (case dominant_colors of [] \<Rightarrow> None | c # _ \<Rightarrow> Some c);
       main_rgb \<leftarrow> hex_to_rgb main_color;
       (case main_rgb of (r, g, b) \<Rightarrow>
          Some \<lparr>primary = main_color,
                light = rgb_to_hex (min 255 (r + 60), min 255 (g + 60), min 255 (b + 60)),
                dark = rgb_to_hex (max 0 (r - 40), max 0 (g - 40), max 0 (b - 40)),
                complement = rgb_to_hex (255 - r, 255 - g, 255 - b),
                neutral = ''#f8f9fa''\<rparr>)
     }"

definition generate_color_palette :: "string list \<Rightarrow> palette" where
  "generate_color_palette dominant_colors =
     (case palette_body dominant_colors of None \<Rightarrow> default_palette | Some p \<Rightarrow> p)"

section \<open>TextOverlayRenderer: \<open>add_text_overlay\<close>\<close>

text \<open>
  The imaging library (PIL) is a parameter: an image and a font are values of the types
  \<open>'img\<close> and \<open>'font\<close>, every library call may raise (\<open>None\<close>), and a drawing call
  returns the image it has drawn on.
\<close>

type_synonym bbox = "int \<times> int \<times> int \<times> int"

datatype color = RGBA int int int int | ColorName string

record ('img, 'font) pil =
  image_open :: "bytes \<Rightarrow> 'img option"
  image_mode :: "'img \<Rightarrow> string"
  image_convert :: "'img \<Rightarrow> string \<Rightarrow> 'img option"
  image_size :: "'img \<Rightarrow> int \<times> int"
  image_new :: "string \<Rightarrow> int \<times> int \<Rightarrow> color \<Rightarrow> 'img option"
  alpha_composite :: "'img \<Rightarrow> 'img \<Rightarrow> 'img option"
  truetype :: "string \<Rightarrow> nat \<Rightarrow> 'font option"
  load_default :: "'font option"
  textbbox :: "'font \<Rightarrow> string \<Rightarrow> bbox option"
  draw_rectangle ::
    "'img \<Rightarrow> (int \<times> int) \<times> (int \<times> int) \<Rightarrow> color \<Rightarrow> color option \<Rightarrow> nat \<Rightarrow> 'img option"
  draw_text :: "'img \<Rightarrow> int \<times> int \<Rightarrow> string \<Rightarrow> 'font \<Rightarrow> color \<Rightarrow> nat \<Rightarrow> color \<Rightarrow> 'img option"
  image_save :: "'img \<Rightarrow> string \<Rightarrow> nat \<Rightarrow> bytes option"

fun fold_opt :: "('a \<Rightarrow> 's \<Rightarrow> 's option) \<Rightarrow> 'a list \<Rightarrow> 's \<Rightarrow> 's option" where
  "fold_opt f [] s = Some s"
| "fold_opt f (x # xs) s = (case f x s of None \<Rightarrow> None | Some s' \<Rightarrow> fold_opt f xs s')"

definition dejavu_bold :: string where
  "dejavu_bold = ''/usr/share/fonts/truetype/dejavu/DejaVuSans-Bold.ttf''"

definition dejavu_sans :: string where
  "dejavu_sans = ''/usr/share/fonts/truetype/dejavu/DejaVuSans.ttf''"

text \<open>The inner \<open>try\<close>: the four system fonts, or the built-in font four times.\<close>

definition load_fonts :: "('img, 'font) pil \<Rightarrow> ('font \<times> 'font \<times> 'font \<times> 'font) option" where
  "load_fonts lib =
     (case do {
             title_font \<leftarrow> truetype lib dejavu_bold 52;
             price_font \<leftarrow> truetype lib dejavu_bold 95;
             desc_font \<leftarrow> truetype lib dejavu_sans 38;
             cta_font \<leftarrow> truetype lib dejavu_bold 48;
             Some (title_font, price_font, desc_font, cta_font)
           } of
        Some fonts \<Rightarrow> Some fonts
      | None \<Rightarrow>
          do {
            title_font \<leftarrow> load_default lib;
            price_font \<leftarrow> load_default lib;
            desc_font \<leftarrow> load_default lib;
            cta_font \<leftarrow> load_default lib;
            Some (title_font, price_font, desc_font, cta_font)
          })"

definition truncate_title :: "string \<Rightarrow> string" where
  "truncate_title title = (if length title > 60 then take 57 title @ ''...'' else title)"

text \<open>The two gradient bands drawn on the transparent overlay.\<close>

definition top_gradient :: "('img, 'font) pil \<Rightarrow> int \<Rightarrow> 'img \<Rightarrow> 'img option" where
  "top_gradient lib width overlay =
     fold_opt (\<lambda>i ov.
        let alpha = (160 * (140 - int i)) div 140
        in draw_rectangle lib ov ((0, int i), (width, int i + 1)) (RGBA 0 0 0 alpha) None 1)
      [0..<140] overlay"

definition bottom_gradient :: "('img, 'font) pil \<Rightarrow> int \<Rightarrow> int \<Rightarrow> 'img \<Rightarrow> 'img option" where
  "bottom_gradient lib width height overlay =
     fold_opt (\<lambda>i ov.
        let alpha = (160 * int i) div 180
        in draw_rectangle lib ov ((0, height - 180 + int i), (width, height - 180 + int i + 1))
             (RGBA 0 0 0 alpha) None 1)
      [0..<180] overlay"

subsection \<open>Title word-wrap\<close>

text \<open>One round of the loop over the words; the state is \<open>(lines, current_line)\<close>.\<close>

definition wrap_step ::
  "(string \<Rightarrow> bbox option) \<Rightarrow> int \<Rightarrow> string \<Rightarrow> string list \<times> string \<Rightarrow> (string list \<times> string) option"
where
  "wrap_step bbox_of width word st =
     (case st of (lines, current_line) \<Rightarrow>
        let test_line = py_strip (current_line @ '' '' @ word) in
        do {
          (x0, y0, x1, y1) \<leftarrow> bbox_of test_line;
          if x1 - x0 \<le> width - 40 then Some (lines, test_line)
          else Some (if current_line \<noteq> [] then lines @ [current_line] else lines, word)
        })"

definition wrap_title :: "(string \<Rightarrow> bbox option) \<Rightarrow> int \<Rightarrow> string \<Rightarrow> string list option" where
  "wrap_title bbox_of width title =
     do {
       (lines, current_line) \<leftarrow> fold_opt (wrap_step bbox_of width) (py_split title) ([], []);
       Some (if current_line \<noteq> [] then lines @ [current_line] else lines)
     }"


definition draw_title_line ::
  "('img, 'font) pil \<Rightarrow> 'font \<Rightarrow> string \<Rightarrow> 'img \<times> int \<Rightarrow> ('img \<times> int) option"
where
  "draw_title_line lib title_font line st =
     (case st of (img, y_offset) \<Rightarrow>
        do {
          img' \<leftarrow> draw_text lib img (20, y_offset) line title_font (ColorName ''white'') 2
                    (ColorName ''black'');
          Some (img', y_offset + 55)
        })"

subsection \<open>The renderer\<close>

definition cta_text :: string where
  "cta_text = CHR 0xA1 # ''COMPRA AHORA!''"

definition subtitle_text :: string where
  "subtitle_text = ''Dise'' @ [CHR 0xF1] @ ''o '' @ [CHR 0xFA] @ ''nico y funcional''"

text \<open>The body of the outer \<open>try\<close> of \<open>add_text_overlay\<close>; \<open>None\<close> when a step raises.\<close>

definition overlay_body :: "('img, 'font) pil \<Rightarrow> bytes \<Rightarrow> product_data \<Rightarrow> bytes option" where
  "overlay_body lib image_data product_data =
     do {
       img \<leftarrow> image_open lib image_data;
       img \<leftarrow> (if image_mode lib img \<noteq> ''RGB'' then image_convert lib img ''RGB'' else Some img);
       (title_font, price_font, desc_font, cta_font) \<leftarrow> load_fonts lib;
       title \<leftarrow> product_data ''title'';
       let title = truncate_title title;
       price_raw \<leftarrow> product_data ''price'';
       let price = (if CHR ''.'' \<in> set price_raw then ''$'' @ price_raw else ''$'' @ price_raw);
       let cta = cta_text;
       let subtitle = subtitle_text;
       let (width, height) = image_size lib img;
       overlay \<leftarrow> image_new lib ''RGBA'' (width, height) (RGBA 0 0 0 0);
       overlay \<leftarrow> top_gradient lib width overlay;
       overlay \<leftarrow> bottom_gradient lib width height overlay;
       rgba \<leftarrow> image_convert lib img ''RGBA'';
       blended \<leftarrow> alpha_composite lib rgba overlay;
       img \<leftarrow> image_convert lib blended ''RGB'';
       lines \<leftarrow> wrap_title (textbbox lib title_font) width title;
       (img, y_offset) \<leftarrow> fold_opt (draw_title_line lib title_font) (take 2 lines) (img, 25);
       img \<leftarrow> draw_text lib img (20, y_offset + 10) subtitle desc_font (ColorName ''#E0E0E0'') 1
                (ColorName ''black'');
       price_bbox \<leftarrow> textbbox lib price_font price;
       img \<leftarrow> draw_text lib img (20, height - 150) price price_font (ColorName ''#FFD700'') 3
                (ColorName ''black'');
       (cx0, cy0, cx1, cy1) \<leftarrow> textbbox lib cta_font cta;
       let cta_width = cx1 - cx0;
       let cta_height = cy1 - cy0;
       let button_padding = 15;
       let button_x = width - cta_width - 40 - button_padding;
       let button_y = height - 100 - button_padding;
       let button_width = cta_width + button_padding * 2;
       let button_height = cta_height + button_padding * 2;
       img \<leftarrow> draw_rectangle lib img
                ((button_x, button_y), (button_x + button_width, button_y + button_height))
                (ColorName ''#FF6B35'') (Some (ColorName ''white'')) 3;
       img \<leftarrow> draw_text lib img (button_x + button_padding, button_y + button_padding) cta cta_font
                (ColorName ''white'') 2 (ColorName ''black'');
       image_save lib img ''JPEG'' 95
     }"

text \<open>\<open>except Exception\<close>: the original image is returned when the body raises.\<close>

definition add_text_overlay ::
  "('img, 'font) pil \<Rightarrow> bytes \<Rightarrow> product_data \<Rightarrow> string \<Rightarrow> py_exn + bytes"
where
  "add_text_overlay lib image_data product_data ad_concept =
     (case overlay_body lib image_data product_data of
        Some output \<Rightarrow> Inr output
      | None \<Rightarrow> Inr image_data)"

section \<open>PromptComposer: the \<open>generation_prompt\<close> of \<open>generate_instagram_ad\<close>\<close>

text \<open>
  A prompt is a triple-quoted f-string, stripped: a newline and the indentation of the
  source before every line, and once more before the closing quotes.
\<close>

definition nl :: string where
  "nl = [CHR 0x0A]"

definition indent :: "nat \<Rightarrow> string" where
  "indent n = replicate n CHR '' ''"

definition triple_quoted :: "nat \<Rightarrow> string list \<Rightarrow> string" where
  "triple_quoted n ls = concat (map (\<lambda>l. nl @ indent n @ l) ls) @ nl @ indent n"

subsection \<open>Mode 1 (\<open>use_text_overlay\<close>): a clean image, text is added afterwards\<close>

definition clean_full_lines :: "string \<Rightarrow> string \<Rightarrow> string \<Rightarrow> string list" where
  "clean_full_lines title d background_style =
      [''Professional studio photograph of '' @ title @ ''. '',
       '''',
       ''IMPORTANT: The product must match this exact description: '' @ take 350 d,
       '''',
       ''Requirements:'',
       ''- Same product as described above with identical visual characteristics'',
       ''- '' @ background_style,
       ''- Product prominently featured and well-lit in center'',
       ''- Professional studio lighting with soft shadows'',
       ''- High quality product photography'',
       ''- Square format (1:1 ratio)'',
       ''- Instagram-ready composition'',
       ''- No text or watermarks on the image'',
       ''- Sophisticated and modern aesthetic'',
       ''- Clean, professional look suitable for advertising'']"

definition clean_desc_lines :: "string \<Rightarrow> string \<Rightarrow> string list" where
  "clean_desc_lines title d =
      [''Professional studio photograph of '' @ title @ ''. '',
       '''',
       ''IMPORTANT: The product must match this exact description: '' @ take 400 d,
       '''',
       ''Requirements:'',
       ''- Same product as described above with identical visual characteristics'',
       ''- Stylish gradient background with colors matching the product'',
       ''- Product prominently featured and well-lit'',
       ''- Professional studio lighting'',
       ''- High quality product photography'',
       ''- Square format (1:1 ratio)'',
       ''- No text or watermarks'']"

definition clean_generic_lines :: "string \<Rightarrow> string list" where
  "clean_generic_lines title =
      [''Professional studio photograph of '' @ title @ ''. '',
       ''Modern gradient background with colors that complement the product.'',
       ''Product prominently featured with professional lighting.'',
       ''Square format. High quality. Instagram-ready composition.'',
       ''No text on the image.'']"

subsection \<open>Mode 2: the text is generated on the image\<close>

text \<open>The first pair of templates; the second pair below is assigned over them.\<close>

definition baked_first_full_lines :: "string \<Rightarrow> string \<Rightarrow> string \<Rightarrow> string \<Rightarrow> string list" where
  "baked_first_full_lines title d price background_style =
      [''Create a professional Instagram advertisement image (1080x1080) for '' @ title @ ''.'',
       '''',
       ''Product details: '' @ take 300 d,
       ''Price: '' @ price,
       '''',
       ''Requirements:'',
       ''- Show the exact product as described above'',
       ''- '' @ background_style,
       ''- Include Spanish advertising text on the image'',
       ''- Add the price: '' @ price,
       ''- Include an attractive Spanish call-to-action'',
       ''- Use professional Instagram ad design'',
       ''- Modern, eye-catching layout'',
       ''- High quality and visually appealing'',
       ''- Square format (1:1 ratio)'',
       ''- All text must be in perfect Spanish'']"

definition baked_first_generic_lines :: "string \<Rightarrow> string \<Rightarrow> string list" where
  "baked_first_generic_lines title price =
      [''Create a professional Instagram advertisement image (1080x1080) for '' @ title @ ''.'',
       ''Price: '' @ price,
       '''',
       ''Requirements:'',
       ''- Professional product photography with stylish background'',
       ''- Include Spanish advertising text on the image'',
       ''- Add the price: '' @ price,
       ''- Include an attractive Spanish call-to-action'',
       ''- Use professional Instagram ad design'',
       ''- Modern, eye-catching layout'',
       ''- High quality and visually appealing'',
       ''- Square format (1:1 ratio)'',
       ''- All text must be in perfect Spanish'']"

definition baked_desc_lines :: "string \<Rightarrow> string \<Rightarrow> string \<Rightarrow> string \<Rightarrow> string list" where
  "baked_desc_lines title d price background_style =
      [''Create a professional Instagram advertisement image (1080x1080) for '' @ title @ ''.'',
       '''',
       ''Product details: '' @ take 250 d,
       ''Price: '' @ price,
       '''',
       ''Design Requirements:'',
       ''- Show the exact product as described above'',
       ''- Beautiful '' @ background_style @ '' behind the product'',
       ''- Include Spanish advertising text on the image'',
       ''- Add the price: '' @ price,
       ''- Include an attractive Spanish call-to-action'',
       ''- Professional Instagram ad design with modern typography'',
       ''- High quality and visually appealing'',
       ''- Square format (1:1 ratio)'',
       ''- All text must be in perfect Spanish'',
       ''- Sophisticated color scheme that complements the product'']"

definition baked_generic_lines :: "string \<Rightarrow> string \<Rightarrow> string \<Rightarrow> string list" where
  "baked_generic_lines title price background_style =
      [''Create a professional Instagram advertisement image (1080x1080) for '' @ title @ ''.'',
       ''Price: '' @ price,
       '''',
       ''Design Requirements:'',
       ''- Professional product photography'',
       ''- Beautiful '' @ background_style @ '' behind the product'',
       ''- Include Spanish advertising text on the image'',
       ''- Add the price: '' @ price,
       ''- Include an attractive Spanish call-to-action'',
       ''- Professional Instagram ad design with modern typography'',
       ''- High quality and visually appealing'',
       ''- Square format (1:1 ratio)'',
       ''- All text must be in perfect Spanish'',
       ''- Sophisticated and modern aesthetic'']"

text \<open>
  The composed prompt. \<open>d\<close> is \<open>combined_image_description\<close>; a string is true when it
  is not empty. Mode 1 reads \<open>product_data['title']\<close>, which raises \<open>KeyError\<close> on a
  dictionary without a title; mode 2 reads with \<open>get\<close>.
\<close>

definition generation_prompt ::
  "bool \<Rightarrow> product_data \<Rightarrow> string \<Rightarrow> string \<Rightarrow> py_exn + string"
where
  "generation_prompt use_text_overlay product_data d background_style =
     (if use_text_overlay then
        (case product_data ''title'' of
           None \<Rightarrow> Inl KeyError
         | Some title \<Rightarrow>
             Inr (if d \<noteq> [] \<and> background_style \<noteq> [] then
                    py_strip (triple_quoted 16 (clean_full_lines title d background_style))
                  else if d \<noteq> [] then py_strip (triple_quoted 16 (clean_desc_lines title d))
                  else py_strip (triple_quoted 16 (clean_generic_lines title))))
      else
        let title = get_or product_data ''title'' [];
            price = get_or product_data ''price'' [];
            generation_prompt =
              (if d \<noteq> [] \<and> background_style \<noteq> [] then
                 py_strip (triple_quoted 16 (baked_first_full_lines title d price background_style))
               else py_strip (triple_quoted 16 (baked_first_generic_lines title price)));
            title = get_or product_data ''title'' [];
            price = get_or product_data ''price'' [];
            generation_prompt =
              (if d \<noteq> [] then
                 py_strip (triple_quoted 16 (baked_desc_lines title d price background_style))
               else py_strip (triple_quoted 16 (baked_generic_lines title price background_style)))
        in Inr generation_prompt)"

subsection \<open>The prompt rebuilt for the fallback model\<close>

definition fallback_lines :: "string \<Rightarrow> string \<Rightarrow> string \<Rightarrow> string list" where
  "fallback_lines title d background_style =
      [''Professional studio photograph of '' @ title @ ''.'',
       '''',
       (if d \<noteq> [] then ''Product details: '' @ take 300 d else ''''),
       '''',
       ''Requirements:'',
       ''- Show the exact product as described'',
       ''- '' @ (if background_style \<noteq> [] then background_style
                else ''Professional gradient background''),
       ''- Product prominently featured and well-lit'',
       ''- Professional studio lighting with soft shadows'',
       ''- High quality product photography'',
       ''- Square format (1:1 ratio)'',
       ''- Instagram-ready composition'',
       ''- Clean, professional look suitable for advertising'',
       ''- No text or watermarks on the image (text will be added separately)'']"

definition fallback_prompt :: "product_data \<Rightarrow> string \<Rightarrow> string \<Rightarrow> string" where
  "fallback_prompt product_data d background_style =
     py_strip (triple_quoted 20 (fallback_lines (get_or product_data ''title'' []) d background_style))"

section \<open>GenerationOrchestrator: the backend calls of \<open>generate_instagram_ad\<close>\<close>

definition IMAGE_GENERATION_MODEL :: string where
  "IMAGE_GENERATION_MODEL = ''gemini-2.0-flash-preview-image-generation''"

definition TEXT_TO_IMAGE_MODEL :: string where
  "TEXT_TO_IMAGE_MODEL = ''gemini-2.0-flash-preview-image-generation''"

definition FALLBACK_TEXT_TO_IMAGE_MODEL :: string where
  "FALLBACK_TEXT_TO_IMAGE_MODEL = ''gemini-2.0-flash-preview-image-generation''"

record gen_config =
  response_modalities :: "string list"
  temperature :: rat
  max_output_tokens :: nat
  candidate_count :: nat

record request =
  model :: string
  contents :: string
  config :: "gen_config option"

text \<open>What the backend returns: candidates, content, parts, each possibly absent.\<close>

datatype blob = DataStr string | DataBytes bytes

datatype inline = Inline (data: "blob option")

datatype part = Part (part_text: "string option") (inline_data: "inline option")

datatype content = Content (parts: "part list option")

datatype candidate = Candidate (content: "content option")

datatype response = Response (candidates: "candidate list option")

text \<open>
  The backend is any function of the requests made so far and the request at hand: it
  raises or returns a response (or nothing). A call appends its request to the list of calls.
\<close>

type_synonym backend = "request list \<Rightarrow> request \<Rightarrow> py_exn + response option"

definition generate_content ::
  "backend \<Rightarrow> request \<Rightarrow> request list \<Rightarrow> (py_exn + response option) \<times> request list"
where
  "generate_content be req calls = (be calls req, calls @ [req])"

definition clean_config :: gen_config where
  "clean_config =
     \<lparr>response_modalities = [''IMAGE'', ''TEXT''], temperature = 1 / 10,
      max_output_tokens = 2048, candidate_count = 1\<rparr>"

definition baked_config :: gen_config where
  "baked_config =
     \<lparr>response_modalities = [''IMAGE'', ''TEXT''], temperature = 3 / 10,
      max_output_tokens = 2048, candidate_count = 1\<rparr>"

definition selected_model :: "bool \<Rightarrow> string" where
  "selected_model use_text_overlay =
     (if use_text_overlay then IMAGE_GENERATION_MODEL else TEXT_TO_IMAGE_MODEL)"

text \<open>
  The calls inside the outer \<open>try\<close>. The result is what the last call gave and the value of
  \<open>used_fallback\<close> at that moment.
\<close>

definition request_response ::
  "backend \<Rightarrow> bool \<Rightarrow> product_data \<Rightarrow> string \<Rightarrow> string \<Rightarrow> string \<Rightarrow> request list
     \<Rightarrow> ((py_exn + response option) \<times> bool) \<times> request list"
where
  "request_response be use_text_overlay product_data d background_style prompt calls =
     (if use_text_overlay then
        (case generate_content be
                \<lparr>model = selected_model use_text_overlay, contents = prompt,
                 config = Some clean_config\<rparr> calls of
           (Inr response, calls1) \<Rightarrow> ((Inr response, False), calls1)
         | (Inl config_error, calls1) \<Rightarrow>
             (case generate_content be
                     \<lparr>model = selected_model use_text_overlay, contents = prompt, config = None\<rparr>
                     calls1 of
                (r, calls2) \<Rightarrow> ((r, False), calls2)))
      else
        (case generate_content be
                \<lparr>model = selected_model use_text_overlay, contents = prompt,
                 config = Some baked_config\<rparr> calls of
           (Inr response, calls1) \<Rightarrow> ((Inr response, False), calls1)
         | (Inl text_to_image_error, calls1) \<Rightarrow>
             (let used_fallback = True;
                  fallback = fallback_prompt product_data d background_style
              in case generate_content be
                        \<lparr>model = FALLBACK_TEXT_TO_IMAGE_MODEL, contents = fallback,
                         config = Some baked_config\<rparr> calls1 of
                   (r, calls2) \<Rightarrow> ((r, used_fallback), calls2))))"

subsection \<open>Reading the response\<close>

text \<open>What the function returns: \<open>None\<close>, or a pair of the image (or \<open>None\<close>) and the flag.\<close>

datatype py_result = RNone | RPair "bytes option" bool

definition text_true :: "part \<Rightarrow> bool" where
  "text_true p = (case part_text p of None \<Rightarrow> False | Some t \<Rightarrow> t \<noteq> [])"

definition blob_true :: "blob \<Rightarrow> bool" where
  "blob_true b = (case b of DataStr s \<Rightarrow> s \<noteq> [] | DataBytes bs \<Rightarrow> bs \<noteq> [])"

text \<open>The payload of a part: raw bytes, or a base64 string to decode (which may raise).\<close>

definition decode_blob :: "(string \<Rightarrow> bytes option) \<Rightarrow> blob \<Rightarrow> bytes option" where
  "decode_blob b64decode b = (case b of DataStr s \<Rightarrow> b64decode s | DataBytes bs \<Rightarrow> Some bs)"

text \<open>
  The loop over the parts of the first candidate, and the return after it. An exception
  between the decoding and the \<open>return\<close> is caught in the loop, which goes on.
\<close>

fun scan_parts ::
  "('img, 'font) pil \<Rightarrow> (string \<Rightarrow> bytes option) \<Rightarrow> bool \<Rightarrow> product_data \<Rightarrow> string \<Rightarrow> bool
     \<Rightarrow> part list \<Rightarrow> py_result"
where
  "scan_parts lib b64decode use_text_overlay product_data ad_concept used_fallback [] =
     RPair None used_fallback"
| "scan_parts lib b64decode use_text_overlay product_data ad_concept used_fallback (p # ps) =
     (let continue = scan_parts lib b64decode use_text_overlay product_data ad_concept used_fallback ps
      in if text_true p then continue
         else
           (case inline_data p of
              None \<Rightarrow> continue
            | Some inl \<Rightarrow>
                (case data inl of
                   None \<Rightarrow> continue
                 | Some b \<Rightarrow>
                     (if \<not> blob_true b then continue
                      else
                        (case decode_blob b64decode b of
                           None \<Rightarrow> continue
                         | Some image_data \<Rightarrow>
                             (if use_text_overlay then
                                (case add_text_overlay lib image_data product_data ad_concept of
                                   Inl e \<Rightarrow> continue
                                 | Inr final_image_data \<Rightarrow>
                                     RPair (Some final_image_data) used_fallback)
                              else if \<not> used_fallback then RPair (Some image_data) used_fallback
                              else
                                (case add_text_overlay lib image_data product_data ad_concept of
                                   Inl e \<Rightarrow> continue
                                 | Inr final_image_data \<Rightarrow>
                                     RPair (Some final_image_data) used_fallback)))))))"

definition process_response ::
  "('img, 'font) pil \<Rightarrow> (string \<Rightarrow> bytes option) \<Rightarrow> bool \<Rightarrow> product_data \<Rightarrow> string \<Rightarrow> bool
     \<Rightarrow> response option \<Rightarrow> py_result"
where
  "process_response lib b64decode use_text_overlay product_data ad_concept used_fallback response =
     (case response of
        None \<Rightarrow> RNone
      | Some r \<Rightarrow>
          (case candidates r of
             None \<Rightarrow> RNone
           | Some [] \<Rightarrow> RNone
           | Some (candidate # _) \<Rightarrow>
               (case content candidate of
                  None \<Rightarrow> RNone
                | Some c \<Rightarrow>
                    (case parts c of
                       None \<Rightarrow> RNone
                     | Some [] \<Rightarrow> RNone
                     | Some ps \<Rightarrow>
                         scan_parts lib b64decode use_text_overlay product_data ad_concept
                           used_fallback ps))))"

text \<open>
  \<open>generate_instagram_ad\<close> from the composition of the prompt on. The analysis of the
  reference images before it is represented by its two results, the combined description
  \<open>d\<close> and the background style (each empty when nothing was obtained). The outer
  \<open>except\<close> turns an exception of the calls into \<open>(None, False)\<close>.
\<close>

definition generate_instagram_ad ::
  "('img, 'font) pil \<Rightarrow> (string \<Rightarrow> bytes option) \<Rightarrow> backend \<Rightarrow> product_data \<Rightarrow> string
     \<Rightarrow> string \<Rightarrow> string \<Rightarrow> bool \<Rightarrow> request list \<Rightarrow> (py_exn + py_result) \<times> request list"
where
  "generate_instagram_ad lib b64decode be product_data ad_concept d background_style
       use_text_overlay calls =
     (case generation_prompt use_text_overlay product_data d background_style of
        Inl e \<Rightarrow> (Inl e, calls)
      | Inr prompt \<Rightarrow>
          (case request_response be use_text_overlay product_data d background_style prompt calls of
             ((Inl e, used_fallback), calls') \<Rightarrow> (Inr (RPair None False), calls')
           | ((Inr response, used_fallback), calls') \<Rightarrow>
               (Inr (process_response lib b64decode use_text_overlay product_data ad_concept
                       used_fallback response), calls')))"

section \<open>Notions used in the statements\<close>

text \<open>A colour with every channel in the range of a byte.\<close>

definition valid_rgb :: "rgb \<Rightarrow> bool" where
  "valid_rgb c = (case c of (r, g, b) \<Rightarrow> 0 \<le> r \<and> r \<le> 255 \<and> 0 \<le> g \<and> g \<le> 255 \<and> 0 \<le> b \<and> b \<le> 255)"


text \<open>
  The three tiers as the specification words them: by the availability of the description
  and of the background style alone.
\<close>

datatype tier = Full | DescriptionOnly | Generic

definition spec_tier :: "string \<Rightarrow> string \<Rightarrow> tier" where
  "spec_tier d background_style =
     (if d \<noteq> [] \<and> background_style \<noteq> [] then Full
      else if d \<noteq> [] then DescriptionOnly
      else Generic)"

text \<open>A part from which the loop obtains image bytes.\<close>

definition yields_image :: "(string \<Rightarrow> bytes option) \<Rightarrow> part \<Rightarrow> bool" where
  "yields_image b64decode p =
     (\<not> text_true p \<and>
      (case inline_data p of
         None \<Rightarrow> False
       | Some inl \<Rightarrow>
           (case data inl of
              None \<Rightarrow> False
            | Some b \<Rightarrow> blob_true b \<and> decode_blob b64decode b \<noteq> None)))"

text \<open>
  The lines of the mode 2 templates that ask for text on the image: the price, the
  advertising text and the call to action.
\<close>

definition text_instructions :: "string \<Rightarrow> string list" where
  "text_instructions price =
     [''Price: '' @ price,
      ''- Include Spanish advertising text on the image'',
      ''- Add the price: '' @ price,
      ''- Include an attractive Spanish call-to-action'',
      ''- All text must be in perfect Spanish'']"

text \<open>The requests the orchestrator can send.\<close>

definition primary_request :: "bool \<Rightarrow> string \<Rightarrow> request" where
  "primary_request use_text_overlay prompt =
     \<lparr>model = selected_model use_text_overlay, contents = prompt,
      config = Some (if use_text_overlay then clean_config else baked_config)\<rparr>"

definition bare_request :: "string \<Rightarrow> request" where
  "bare_request prompt = \<lparr>model = IMAGE_GENERATION_MODEL, contents = prompt, config = None\<rparr>"

definition fallback_request :: "product_data \<Rightarrow> string \<Rightarrow> string \<Rightarrow> request" where
  "fallback_request product_data d background_style =
     \<lparr>model = FALLBACK_TEXT_TO_IMAGE_MODEL,
      contents = fallback_prompt product_data d background_style,
      config = Some baked_config\<rparr>"

section \<open>Concrete inputs\<close>

text \<open>The product of the end-to-end scenarios.\<close>

definition silla_title :: string where
  "silla_title = ''Silla de Oficina Ergon'' @ [CHR 0xF3] @ ''mica Reclinable''"

definition silla :: product_data where
  "silla = [''title'' \<mapsto> silla_title, ''price'' \<mapsto> ''45.999'']"

text \<open>Its prompts when no reference image gave a description or a style.\<close>

definition silla_clean_prompt :: string where
  "silla_clean_prompt = py_strip (triple_quoted 16 (clean_generic_lines silla_title))"

definition silla_baked_prompt :: string where
  "silla_baked_prompt = py_strip (triple_quoted 16 (baked_generic_lines silla_title ''45.999'' []))"

text \<open>
  A small imaging library: an image is the list of its bytes, a font is its size, a
  character is half the font size wide, drawn text is appended to the image, and only a
  buffer that starts with the JPEG marker can be opened.
\<close>

definition toy_pil :: "(bytes, nat) pil" where
  "toy_pil =
     \<lparr>image_open = (\<lambda>b. if take 2 b = [255, 216] then Some b else None),
      image_mode = (\<lambda>img. ''RGB''),
      image_convert = (\<lambda>img m. Some img),
      image_size = (\<lambda>img. (1080, 1080)),
      image_new = (\<lambda>m sz c. Some []),
      alpha_composite = (\<lambda>a b. Some a),
      truetype = (\<lambda>path sz. Some sz),
      load_default = Some 10,
      textbbox = (\<lambda>f s. Some (0, 0, int (f * length s) div 2, int f)),
      draw_rectangle = (\<lambda>img box fill outline w. Some img),
      draw_text = (\<lambda>img xy s f fill sw sf. Some (img @ map of_char s)),
      image_save = (\<lambda>img fmt q. Some (img @ [q]))\<rparr>"

text \<open>A buffer that library opens, and what it renders on it for the product above.\<close>

definition jpeg_bytes :: bytes where
  "jpeg_bytes = [255, 216, 255, 224]"

definition silla_ad :: bytes where
  "silla_ad =
     jpeg_bytes @ map of_char silla_title @ map of_char subtitle_text @
     map of_char ''$45.999'' @ map of_char cta_text @ [95]"

text \<open>A base64 decoder that rejects every string.\<close>

definition no_b64 :: "string \<Rightarrow> bytes option" where
  "no_b64 s = None"

text \<open>Responses: with an image after a text part, with no parts, with a text part only.\<close>

definition image_response :: response where
  "image_response =
     Response (Some [Candidate (Some (Content (Some
       [Part (Some ''Here is the image'') None,
        Part None (Some (Inline (Some (DataBytes jpeg_bytes))))])))])"

definition empty_parts_response :: response where
  "empty_parts_response = Response (Some [Candidate (Some (Content (Some [])))])"

definition text_only_response :: response where
  "text_only_response =
     Response (Some [Candidate (Some (Content (Some [Part (Some ''No image today'') None])))])"

text \<open>
  Backends: one that rejects every request, one that rejects only the first, one that
  answers every request.
\<close>

definition always_raises :: backend where
  "always_raises calls req = Inl (BackendError ''503 UNAVAILABLE'')"

definition raises_first :: "response \<Rightarrow> backend" where
  "raises_first r calls req =
     (if calls = [] then Inl (BackendError ''404 model not found'') else Inr (Some r))"

definition always_returns :: "response \<Rightarrow> backend" where
  "always_returns r calls req = Inr (Some r)"

section \<open>PaletteBuilder: the clamping law\<close>

lemma hex_char_cases: "d < 16 \<Longrightarrow> d \<in> {0,1,2,3,4,5,6,7,8,9,10,11,12,13,14,15::nat}"
  by simp arith

lemma hex_val_hex_char: "d < 16 \<Longrightarrow> hex_val (hex_char d) = Some d"
  using hex_char_cases [of d] by (auto simp: hex_val_def hex_char_def)

lemma hex_char_plain:
  "d < 16 \<Longrightarrow> \<not> int_space (hex_char d) \<and> hex_char d \<noteq> CHR ''_'' \<and> hex_char d \<noteq> CHR ''-''
     \<and> hex_char d \<noteq> CHR ''+'' \<and> hex_char d \<noteq> CHR ''x'' \<and> hex_char d \<noteq> CHR ''X''"
  using hex_char_cases [of d] by (auto simp: int_space_def hex_char_def)

lemma py_int16_two_digits:
  assumes "a < 16" "b < 16"
  shows "py_int16 [hex_char a, hex_char b] = Some (int (16 * a + b))"
  using hex_char_plain [OF assms(1)] hex_char_plain [OF assms(2)]
    hex_val_hex_char [OF assms(1)] hex_val_hex_char [OF assms(2)]
  by (simp add: py_int16_def skip_prefix_def)

lemma format_02x_byte:
  assumes "0 \<le> n" "n \<le> 255"
  shows "format_02x n = [hex_char (nat n div 16), hex_char (nat n mod 16)]"
proof (cases "nat n < 16")
  case True
  then show ?thesis using assms
    by (simp add: format_02x_def to_hex.simps [of "nat n"] hex_char_def)
next
  case False
  then have "nat n div 16 < 16" using assms by auto
  then show ?thesis using assms False
    by (simp add: format_02x_def to_hex.simps [of "nat n"] to_hex.simps [of "nat n div 16"])
qed

lemma py_int16_byte:
  assumes "0 \<le> n" "n \<le> 255"
  shows "py_int16 [hex_char (nat n div 16), hex_char (nat n mod 16)] = Some n"
proof -
  have a: "nat n div 16 < 16" and b: "nat n mod 16 < 16" using assms by auto
  have "int (16 * (nat n div 16) + nat n mod 16) = n" using assms by simp
  then show ?thesis using py_int16_two_digits [OF a b] by simp
qed

lemma hex_to_rgb_rgb_to_hex:
  assumes "valid_rgb (r, g, b)"
  shows "hex_to_rgb (rgb_to_hex (r, g, b)) = Some (r, g, b)"
  using assms
  by (simp add: valid_rgb_def hex_to_rgb_def rgb_to_hex_def format_02x_byte py_int16_byte)

lemma neutral_constant: "hex_to_rgb ''#f8f9fa'' = Some (248, 249, 250)"
  by (simp add: hex_to_rgb_def py_int16_def skip_prefix_def int_space_def hex_val_def)

text \<open>
  C9. For a dominant colour whose channels \<open>(r, g, b)\<close> lie in [0,255], each channel of
  \<open>complement\<close> is 255 minus the channel of the primary colour, each channel of \<open>light\<close> is
  \<open>min 255 (c + 60)\<close>, each channel of \<open>dark\<close> is \<open>max 0 (c - 40)\<close>, these colours have
  all channels in [0,255], and \<open>neutral\<close> is (248, 249, 250).
\<close>

theorem palette_clamping_law:
  assumes "hex_to_rgb main_color = Some (r, g, b)" and "valid_rgb (r, g, b)"
  shows "let p = generate_color_palette (main_color # others) in
           primary p = main_color \<and>
           hex_to_rgb (complement p) = Some (255 - r, 255 - g, 255 - b) \<and>
           hex_to_rgb (light p) = Some (min 255 (r + 60), min 255 (g + 60), min 255 (b + 60)) \<and>
           hex_to_rgb (dark p) = Some (max 0 (r - 40), max 0 (g - 40), max 0 (b - 40)) \<and>
           hex_to_rgb (neutral p) = Some (248, 249, 250) \<and>
           valid_rgb (255 - r, 255 - g, 255 - b) \<and>
           valid_rgb (min 255 (r + 60), min 255 (g + 60), min 255 (b + 60)) \<and>
           valid_rgb (max 0 (r - 40), max 0 (g - 40), max 0 (b - 40))"
proof -
  have c: "valid_rgb (255 - r, 255 - g, 255 - b)"
    and l: "valid_rgb (min 255 (r + 60), min 255 (g + 60), min 255 (b + 60))"
    and d: "valid_rgb (max 0 (r - 40), max 0 (g - 40), max 0 (b - 40))"
    using assms(2) by (auto simp: valid_rgb_def)
  have "palette_body (main_color # others) =
          Some \<lparr>primary = main_color,
                light = rgb_to_hex (min 255 (r + 60), min 255 (g + 60), min 255 (b + 60)),
                dark = rgb_to_hex (max 0 (r - 40), max 0 (g - 40), max 0 (b - 40)),
                complement = rgb_to_hex (255 - r, 255 - g, 255 - b),
                neutral = ''#f8f9fa''\<rparr>"
    using assms(1) by (simp add: palette_body_def)
  then show ?thesis
    using c l d
    by (simp add: generate_color_palette_def Let_def neutral_constant
        hex_to_rgb_rgb_to_hex [OF c] hex_to_rgb_rgb_to_hex [OF l] hex_to_rgb_rgb_to_hex [OF d])
qed

lemma sample_colour: "hex_to_rgb ''#f00ae2'' = Some (240, 10, 226)"
  by (simp add: hex_to_rgb_def py_int16_def skip_prefix_def int_space_def hex_val_def)

theorem palette_clamping_law_witness:
  "hex_to_rgb ''#f00ae2'' = Some (240, 10, 226) \<and> valid_rgb (240, 10, 226) \<and>
   (let p = generate_color_palette [''#f00ae2'', ''#7b68ee''] in
      primary p = ''#f00ae2'' \<and>
      hex_to_rgb (complement p) = Some (15, 245, 29) \<and>
      hex_to_rgb (light p) = Some (255, 70, 255) \<and>
      hex_to_rgb (dark p) = Some (200, 0, 186) \<and>
      hex_to_rgb (neutral p) = Some (248, 249, 250))"
proof -
  have v: "valid_rgb (240, 10, 226)" by (simp add: valid_rgb_def)
  show ?thesis
    using palette_clamping_law [OF sample_colour v, of "[''#7b68ee'']"] sample_colour v
    by (simp add: Let_def)
qed

section \<open>TextOverlayRenderer: failures and the title word-wrap\<close>





lemma fold_opt_same: "(\<And>x s. f x s = Some s) \<Longrightarrow> fold_opt f xs s = Some s"
  by (induction xs) simp_all

text \<open>The small library at work.\<close>

lemma toy_calls:
  "image_open toy_pil b = (if take 2 b = [255, 216] then Some b else None)"
  "image_mode toy_pil img = ''RGB''"
  "image_convert toy_pil img m = Some img"
  "image_size toy_pil img = (1080, 1080)"
  "image_new toy_pil m sz c = Some []"
  "alpha_composite toy_pil img ov = Some img"
  "textbbox toy_pil f s = Some (0, 0, int (f * length s) div 2, int f)"
  "draw_rectangle toy_pil img box fill outline w = Some img"
  "draw_text toy_pil img xy s f fill sw sf = Some (img @ map of_char s)"
  "image_save toy_pil img fmt q = Some (img @ [q])"
  by (simp_all add: toy_pil_def)

lemma toy_top: "top_gradient toy_pil w ov = Some ov"
  unfolding top_gradient_def by (rule fold_opt_same) (simp add: toy_pil_def Let_def)

lemma toy_bottom: "bottom_gradient toy_pil w h ov = Some ov"
  unfolding bottom_gradient_def by (rule fold_opt_same) (simp add: toy_pil_def Let_def)

lemma toy_fonts: "load_fonts toy_pil = Some (52, 95, 38, 48)"
  by (simp add: load_fonts_def toy_pil_def)

lemma toy_wrap:
  "wrap_title (textbbox toy_pil 52) 1080 (truncate_title silla_title) = Some [silla_title]"
  by (simp add: wrap_title_def wrap_step_def truncate_title_def silla_title_def
      py_split_def py_strip_def is_space_def toy_pil_def)

lemma toy_overlay_silla: "add_text_overlay toy_pil jpeg_bytes silla ad_concept = Inr silla_ad"
  by (simp add: add_text_overlay_def overlay_body_def toy_fonts toy_top toy_bottom toy_wrap
      toy_calls draw_title_line_def silla_def silla_ad_def jpeg_bytes_def)











section \<open>Prompts: what \<open>strip\<close> leaves\<close>

lemma py_strip_sandwich:
  assumes a: "\<forall>c\<in>set a. is_space c" and b: "\<forall>c\<in>set b. is_space c"
    and m: "m \<noteq> []" and h: "\<not> is_space (hd m)" and l: "\<not> is_space (last m)"
  shows "py_strip (a @ m @ b) = m"
proof -
  have "dropWhile is_space (a @ m @ b) = dropWhile is_space (m @ b)"
    using a by (intro dropWhile_append2) auto
  moreover have "dropWhile is_space (m @ b) = m @ b"
    using m h by (cases m) simp_all
  ultimately have front: "dropWhile is_space (a @ m @ b) = m @ b" by simp
  have "dropWhile is_space (rev b @ rev m) = dropWhile is_space (rev m)"
    using b by (intro dropWhile_append2) auto
  moreover have "dropWhile is_space (rev m) = rev m"
    using m l by (cases m rule: rev_cases) simp_all
  ultimately have rear: "dropWhile is_space (rev b @ rev m) = rev m" by simp
  show ?thesis by (simp add: py_strip_def front rear)
qed

lemma last_joined:
  assumes "ls \<noteq> []" and "last ls \<noteq> []"
  shows "last (l1 @ concat (map (\<lambda>l. pre @ l) ls)) = last (last ls)"
proof -
  obtain bs where ls: "ls = bs @ [last ls]"
    using assms(1) by (metis append_butlast_last_id)
  have "l1 @ concat (map (\<lambda>l. pre @ l) ls) =
          (l1 @ concat (map (\<lambda>l. pre @ l) bs) @ pre) @ last ls"
    by (subst ls) simp
  then show ?thesis using assms(2) by (metis last_appendR)
qed

lemma strip_lines:
  assumes pre: "\<forall>c\<in>set pre. is_space c"
    and "l1 \<noteq> []" and "\<not> is_space (hd l1)"
    and "ls \<noteq> []" and "last ls \<noteq> []" and "\<not> is_space (last (last ls))"
  shows "py_strip (concat (map (\<lambda>l. pre @ l) (l1 # ls)) @ pre) = l1 @ concat (map (\<lambda>l. pre @ l) ls)"
proof -
  define m where "m = l1 @ concat (map (\<lambda>l. pre @ l) ls)"
  have shape: "concat (map (\<lambda>l. pre @ l) (l1 # ls)) @ pre = pre @ m @ pre"
    by (simp add: m_def)
  have ne: "m \<noteq> []" using assms(2) by (simp add: m_def)
  have hd: "hd m = hd l1" using assms(2) by (simp add: m_def)
  have last: "last m = last (last ls)"
    unfolding m_def by (rule last_joined [OF assms(4,5)])
  have "py_strip (pre @ m @ pre) = m"
    using pre ne assms(3,6) by (intro py_strip_sandwich) (simp_all add: hd last)
  then show ?thesis by (simp only: shape m_def)
qed

lemma strip_triple_quoted:
  assumes "l1 \<noteq> []" and "\<not> is_space (hd l1)"
    and "ls \<noteq> []" and "last ls \<noteq> []" and "\<not> is_space (last (last ls))"
  shows "py_strip (triple_quoted n (l1 # ls)) = l1 @ concat (map (\<lambda>l. (nl @ indent n) @ l) ls)"
proof -
  have pre: "\<forall>c\<in>set (nl @ indent n). is_space c"
    by (auto simp: nl_def indent_def is_space_def)
  have "triple_quoted n (l1 # ls) = concat (map (\<lambda>l. (nl @ indent n) @ l) (l1 # ls)) @ (nl @ indent n)"
    by (simp add: triple_quoted_def)
  then show ?thesis
    using strip_lines [OF pre assms] by (simp only:)
qed

lemma sublist_trans: "sublist xs ys \<Longrightarrow> sublist ys zs \<Longrightarrow> sublist xs zs"
  unfolding sublist_def by (metis append.assoc)

lemma sublist_joined:
  assumes "l \<in> set (l1 # ls)" and "sublist x l"
  shows "sublist x (l1 @ concat (map (\<lambda>l. pre @ l) ls))"
proof (cases "l = l1")
  case True
  then have "sublist l (l1 @ concat (map (\<lambda>l. pre @ l) ls))" by simp
  with assms(2) show ?thesis by (rule sublist_trans)
next
  case False
  then have "l \<in> set ls" using assms(1) by simp
  then obtain as bs where "ls = as @ l # bs" by (meson split_list)
  then have "l1 @ concat (map (\<lambda>l. pre @ l) ls) =
      (l1 @ concat (map (\<lambda>l. pre @ l) as) @ pre) @ l @ concat (map (\<lambda>l. pre @ l) bs)"
    by simp
  then have "sublist l (l1 @ concat (map (\<lambda>l. pre @ l) ls))"
    by (metis sublist_appendI)
  with assms(2) show ?thesis by (rule sublist_trans)
qed

text \<open>The prompts of mode 2 and of the fallback, stripped.\<close>

lemma space_facts:
  "\<not> is_space CHR ''C''" "\<not> is_space CHR ''P''" "\<not> is_space CHR ''c''" "\<not> is_space CHR ''t''"
  "\<not> is_space CHR ''.''" "\<not> is_space CHR ''s''" "\<not> is_space CHR '')''" "\<not> is_space CHR ''g''"
  by (simp_all add: is_space_def)

lemma baked_desc_stripped:
  "py_strip (triple_quoted n (baked_desc_lines title d price background_style)) =
     hd (baked_desc_lines title d price background_style) @
     concat (map (\<lambda>l. (nl @ indent n) @ l) (tl (baked_desc_lines title d price background_style)))"
  unfolding baked_desc_lines_def list.sel
  by (rule strip_triple_quoted) (simp_all add: space_facts)

lemma baked_generic_stripped:
  "py_strip (triple_quoted n (baked_generic_lines title price background_style)) =
     hd (baked_generic_lines title price background_style) @
     concat (map (\<lambda>l. (nl @ indent n) @ l) (tl (baked_generic_lines title price background_style)))"
  unfolding baked_generic_lines_def list.sel
  by (rule strip_triple_quoted) (simp_all add: space_facts)

lemma fallback_stripped:
  "py_strip (triple_quoted n (fallback_lines title d background_style)) =
     hd (fallback_lines title d background_style) @
     concat (map (\<lambda>l. (nl @ indent n) @ l) (tl (fallback_lines title d background_style)))"
  unfolding fallback_lines_def list.sel
  by (rule strip_triple_quoted) (simp_all add: space_facts)

lemma sublist_stripped:
  assumes "l \<in> set ls" and "sublist x l" and "ls \<noteq> []"
  shows "sublist x (hd ls @ concat (map (\<lambda>l. pre @ l) (tl ls)))"
  using sublist_joined [of l "hd ls" "tl ls" x pre] assms by simp


lemma clean_generic_stripped:
  "py_strip (triple_quoted n (clean_generic_lines title)) =
     hd (clean_generic_lines title) @
     concat (map (\<lambda>l. (nl @ indent n) @ l) (tl (clean_generic_lines title)))"
  unfolding clean_generic_lines_def list.sel
  by (rule strip_triple_quoted) (simp_all add: space_facts)

lemma baked_prompt_eq:
  "generation_prompt False product_data d background_style =
     Inr (py_strip (triple_quoted 16
       (if d \<noteq> [] then
          baked_desc_lines (get_or product_data ''title'' []) d (get_or product_data ''price'' [])
            background_style
        else
          baked_generic_lines (get_or product_data ''title'' []) (get_or product_data ''price'' [])
            background_style)))"
  by (simp add: generation_prompt_def Let_def)

lemma baked_prompt_price:
  "sublist price (py_strip (triple_quoted n (baked_desc_lines title d price background_style)))"
  "sublist price (py_strip (triple_quoted n (baked_generic_lines title price background_style)))"
proof -
  have l: "sublist price (''Price: '' @ price)" by (rule sublist_append_leftI)
  have m1: "''Price: '' @ price \<in> set (baked_desc_lines title d price background_style)"
    by (simp add: baked_desc_lines_def)
  have n1: "baked_desc_lines title d price background_style \<noteq> []"
    by (simp add: baked_desc_lines_def)
  show "sublist price (py_strip (triple_quoted n (baked_desc_lines title d price background_style)))"
    unfolding baked_desc_stripped by (rule sublist_stripped [OF m1 l n1])
  have m2: "''Price: '' @ price \<in> set (baked_generic_lines title price background_style)"
    by (simp add: baked_generic_lines_def)
  have n2: "baked_generic_lines title price background_style \<noteq> []"
    by (simp add: baked_generic_lines_def)
  show "sublist price (py_strip (triple_quoted n (baked_generic_lines title price background_style)))"
    unfolding baked_generic_stripped by (rule sublist_stripped [OF m2 l n2])
qed

lemma baked_prompt_style:
  "sublist background_style
     (py_strip (triple_quoted n (baked_desc_lines title d price background_style)))"
  "sublist background_style
     (py_strip (triple_quoted n (baked_generic_lines title price background_style)))"
proof -
  let ?l = "''- Beautiful '' @ background_style @ '' behind the product''"
  have l: "sublist background_style ?l" by (rule sublist_appendI)
  have m1: "?l \<in> set (baked_desc_lines title d price background_style)"
    by (simp add: baked_desc_lines_def)
  have n1: "baked_desc_lines title d price background_style \<noteq> []"
    by (simp add: baked_desc_lines_def)
  show "sublist background_style
     (py_strip (triple_quoted n (baked_desc_lines title d price background_style)))"
    unfolding baked_desc_stripped by (rule sublist_stripped [OF m1 l n1])
  have m2: "?l \<in> set (baked_generic_lines title price background_style)"
    by (simp add: baked_generic_lines_def)
  have n2: "baked_generic_lines title price background_style \<noteq> []"
    by (simp add: baked_generic_lines_def)
  show "sublist background_style
     (py_strip (triple_quoted n (baked_generic_lines title price background_style)))"
    unfolding baked_generic_stripped by (rule sublist_stripped [OF m2 l n2])
qed

lemma baked_prompt_style_inj:
  assumes "generation_prompt False product_data d s1 = generation_prompt False product_data d s2"
  shows "s1 = s2"
proof (cases "d = []")
  case True
  with assms show ?thesis
    unfolding baked_prompt_eq
    by (simp add: baked_generic_stripped) (simp add: baked_generic_lines_def)
next
  case False
  with assms show ?thesis
    unfolding baked_prompt_eq
    by (simp add: baked_desc_stripped) (simp add: baked_desc_lines_def)
qed

lemma clean_prompt_price:
  "generation_prompt True (product_data(''price'' := p)) d background_style =
     generation_prompt True product_data d background_style"
  by (simp add: generation_prompt_def)

lemma silla_price: "silla ''price'' = Some ''45.999''"
  by (simp add: silla_def)

lemma silla_clean_prompt_eq: "generation_prompt True silla [] [] = Inr silla_clean_prompt"
  by (simp add: generation_prompt_def silla_def silla_clean_prompt_def)

lemma silla_baked_prompt_eq: "generation_prompt False silla [] [] = Inr silla_baked_prompt"
  by (simp add: generation_prompt_def silla_def silla_baked_prompt_def get_or_def)

lemma no_digit_in_clean_prompt: "CHR ''4'' \<notin> set silla_clean_prompt"
  unfolding silla_clean_prompt_def clean_generic_stripped
  by (simp add: clean_generic_lines_def silla_title_def nl_def indent_def)

text \<open>
  C4, as stated, fails in mode 1: the prompt composed for the product of the scenarios,
  whose price is 45.999, does not contain the price.
\<close>

theorem clean_prompt_omits_price:
  "silla ''price'' = Some ''45.999'' \<and>
   generation_prompt True silla [] [] = Inr silla_clean_prompt \<and>
   \<not> sublist ''45.999'' silla_clean_prompt"
proof -
  have "\<not> sublist ''45.999'' silla_clean_prompt"
    using no_digit_in_clean_prompt set_mono_sublist [of "''45.999''" silla_clean_prompt]
    by fastforce
  then show ?thesis using silla_clean_prompt_eq silla_price by simp
qed

text \<open>
  C4, amended. In mode 2 (text generated on the image) the composed prompt contains the
  price string of the product verbatim, whatever the description and the background
  style are; in mode 1 the prompt does not depend on the price.
\<close>

theorem baked_prompt_contains_price:
  assumes "product_data ''price'' = Some price"
  shows "(\<exists>prompt. generation_prompt False product_data d background_style = Inr prompt \<and>
            sublist price prompt) \<and>
         generation_prompt True (product_data(''price'' := other)) d background_style =
           generation_prompt True product_data d background_style"
proof -
  have "get_or product_data ''price'' [] = price" using assms by (simp add: get_or_def)
  then have "sublist price (py_strip (triple_quoted 16
       (if d \<noteq> [] then
          baked_desc_lines (get_or product_data ''title'' []) d (get_or product_data ''price'' [])
            background_style
        else
          baked_generic_lines (get_or product_data ''title'' []) (get_or product_data ''price'' [])
            background_style)))"
    using baked_prompt_price by simp
  then show ?thesis
    using baked_prompt_eq [of product_data d background_style] clean_prompt_price by simp
qed

theorem baked_prompt_contains_price_witness:
  "silla ''price'' = Some ''45.999'' \<and>
   (\<exists>prompt. generation_prompt False silla ''Silla negra con ruedas'' [] = Inr prompt \<and>
      sublist ''45.999'' prompt)"
  using baked_prompt_contains_price [of silla "''45.999''" "''Silla negra con ruedas''" "[]"]
    silla_price
  by simp

text \<open>
  C5, as stated, fails in mode 2: with the description absent, which the three tiers count
  as the one generic tier, the prompt still changes with the background style.
\<close>

theorem baked_generic_tier_varies:
  "spec_tier [] ''Elegant backdrop'' = Generic \<and> spec_tier [] [] = Generic \<and>
   generation_prompt False silla [] ''Elegant backdrop'' \<noteq> generation_prompt False silla [] []"
  using baked_prompt_style_inj [of silla "[]" "''Elegant backdrop''" "[]"]
  by (auto simp: spec_tier_def)

text \<open>
  C5, amended. Mode 1 has exactly the three tiers: the template is chosen by the
  availability of the description and of the style, and the generic tier uses neither.
  Mode 2 chooses between two templates by the availability of the description alone and
  writes the background style, present or empty, into both: its prompt contains the
  style and changes whenever the style changes, also when the description is absent.
\<close>

theorem prompt_tiers:
  "generation_prompt True product_data d background_style =
     (case product_data ''title'' of
        None \<Rightarrow> Inl KeyError
      | Some title \<Rightarrow>
          Inr (py_strip (triple_quoted 16
            (case spec_tier d background_style of
               Full \<Rightarrow> clean_full_lines title d background_style
             | DescriptionOnly \<Rightarrow> clean_desc_lines title d
             | Generic \<Rightarrow> clean_generic_lines title)))) \<and>
   (spec_tier d background_style = Generic \<longrightarrow>
      generation_prompt True product_data d background_style =
        generation_prompt True product_data [] []) \<and>
   generation_prompt False product_data d background_style =
     Inr (py_strip (triple_quoted 16
       (if d \<noteq> [] then
          baked_desc_lines (get_or product_data ''title'' []) d (get_or product_data ''price'' [])
            background_style
        else
          baked_generic_lines (get_or product_data ''title'' []) (get_or product_data ''price'' [])
            background_style))) \<and>
   (\<exists>prompt. generation_prompt False product_data d background_style = Inr prompt \<and>
      sublist background_style prompt) \<and>
   (background_style \<noteq> other_style \<longrightarrow>
      generation_prompt False product_data d background_style \<noteq>
        generation_prompt False product_data d other_style)"
proof -
  have clean: "generation_prompt True product_data d background_style =
     (case product_data ''title'' of
        None \<Rightarrow> Inl KeyError
      | Some title \<Rightarrow>
          Inr (py_strip (triple_quoted 16
            (case spec_tier d background_style of
               Full \<Rightarrow> clean_full_lines title d background_style
             | DescriptionOnly \<Rightarrow> clean_desc_lines title d
             | Generic \<Rightarrow> clean_generic_lines title))))"
    by (simp add: generation_prompt_def spec_tier_def split: option.splits)
  have generic: "spec_tier d background_style = Generic \<longrightarrow>
      generation_prompt True product_data d background_style =
        generation_prompt True product_data [] []"
    by (auto simp: generation_prompt_def spec_tier_def split: if_splits option.splits)
  have style: "\<exists>prompt. generation_prompt False product_data d background_style = Inr prompt \<and>
      sublist background_style prompt"
    unfolding baked_prompt_eq using baked_prompt_style by simp
  have inj: "background_style \<noteq> other_style \<longrightarrow>
      generation_prompt False product_data d background_style \<noteq>
        generation_prompt False product_data d other_style"
    using baked_prompt_style_inj by blast
  show ?thesis
    by (intro conjI clean generic baked_prompt_eq style inj)
qed

theorem prompt_tiers_witness:
  "spec_tier [] ''Studio setup'' = Generic \<and> ''Studio setup'' \<noteq> [] \<and>
   generation_prompt True silla [] ''Studio setup'' = generation_prompt True silla [] [] \<and>
   generation_prompt False silla [] ''Studio setup'' \<noteq> generation_prompt False silla [] []"
proof -
  note t = prompt_tiers [of silla "[]" "''Studio setup''" "[]"]
  have g: "spec_tier [] ''Studio setup'' = Generic" by (simp add: spec_tier_def)
  have n: "''Studio setup'' \<noteq> []" by simp
  from t g have a: "generation_prompt True silla [] ''Studio setup'' = generation_prompt True silla [] []"
    by blast
  from t n have b: "generation_prompt False silla [] ''Studio setup'' \<noteq> generation_prompt False silla [] []"
    by blast
  show ?thesis using g n a b by (intro conjI)
qed

section \<open>GenerationOrchestrator: calls, fallback and outcomes\<close>

lemma baked_prompt_total: "\<exists>prompt. generation_prompt False product_data d background_style = Inr prompt"
  by (simp add: generation_prompt_def Let_def)

lemma request_response_clean_first:
  assumes "be calls (primary_request True prompt) = Inr r"
  shows "request_response be True product_data d background_style prompt calls =
           ((Inr r, False), calls @ [primary_request True prompt])"
  using assms by (simp add: request_response_def generate_content_def primary_request_def)

lemma request_response_clean_retry:
  assumes "be calls (primary_request True prompt) = Inl e"
  shows "request_response be True product_data d background_style prompt calls =
           ((be (calls @ [primary_request True prompt]) (bare_request prompt), False),
            calls @ [primary_request True prompt, bare_request prompt])"
  using assms
  by (simp add: request_response_def generate_content_def primary_request_def bare_request_def
      selected_model_def)

lemma request_response_baked_first:
  assumes "be calls (primary_request False prompt) = Inr r"
  shows "request_response be False product_data d background_style prompt calls =
           ((Inr r, False), calls @ [primary_request False prompt])"
  using assms by (simp add: request_response_def generate_content_def primary_request_def)

lemma request_response_baked_fallback:
  assumes "be calls (primary_request False prompt) = Inl e"
  shows "request_response be False product_data d background_style prompt calls =
           ((be (calls @ [primary_request False prompt])
                (fallback_request product_data d background_style), True),
            calls @ [primary_request False prompt, fallback_request product_data d background_style])"
  using assms
  by (simp add: request_response_def generate_content_def primary_request_def
      fallback_request_def Let_def)

lemma scan_parts_flag:
  "scan_parts lib b64decode use_text_overlay product_data ad_concept used_fallback ps = RPair x flag
     \<Longrightarrow> flag = used_fallback"
  by (induction ps) (auto simp: Let_def split: if_splits option.splits sum.splits)

lemma process_response_flag:
  "process_response lib b64decode use_text_overlay product_data ad_concept used_fallback r = RPair x flag
     \<Longrightarrow> flag = used_fallback"
  by (auto simp: process_response_def simp del: scan_parts.simps dest: scan_parts_flag
      split: option.splits list.splits)

lemma scan_parts_no_image:
  "\<forall>p\<in>set ps. \<not> yields_image b64decode p \<Longrightarrow>
     scan_parts lib b64decode use_text_overlay product_data ad_concept used_fallback ps =
       RPair None used_fallback"
  by (induction ps) (auto simp: Let_def yields_image_def split: option.splits)


lemma fallback_prompt_price:
  "fallback_prompt (product_data(''price'' := p)) d background_style =
     fallback_prompt product_data d background_style"
  by (simp add: fallback_prompt_def get_or_def)

lemma fallback_request_differs:
  "fallback_request product_data d background_style \<noteq> primary_request True prompt"
  "fallback_request product_data d background_style \<noteq> bare_request prompt"
  by (simp_all add: fallback_request_def primary_request_def bare_request_def baked_config_def
      clean_config_def)

lemma generate_instagram_ad_clean_first:
  assumes "generation_prompt True product_data d background_style = Inr prompt"
    and "be calls (primary_request True prompt) = Inr r"
  shows "generate_instagram_ad lib b64decode be product_data ad_concept d background_style True calls =
           (Inr (process_response lib b64decode True product_data ad_concept False r),
            calls @ [primary_request True prompt])"
  using assms request_response_clean_first [where be = be and calls = calls and prompt = prompt]
  by (simp add: generate_instagram_ad_def)

lemma generate_instagram_ad_clean_retry:
  assumes "generation_prompt True product_data d background_style = Inr prompt"
    and "be calls (primary_request True prompt) = Inl e"
  shows "generate_instagram_ad lib b64decode be product_data ad_concept d background_style True calls =
           ((case be (calls @ [primary_request True prompt]) (bare_request prompt) of
               Inl e' \<Rightarrow> Inr (RPair None False)
             | Inr r \<Rightarrow> Inr (process_response lib b64decode True product_data ad_concept False r)),
            calls @ [primary_request True prompt, bare_request prompt])"
  using assms request_response_clean_retry [where be = be and calls = calls and prompt = prompt]
  by (simp add: generate_instagram_ad_def split: sum.splits)

lemma generate_instagram_ad_baked_first:
  assumes "generation_prompt False product_data d background_style = Inr prompt"
    and "be calls (primary_request False prompt) = Inr r"
  shows "generate_instagram_ad lib b64decode be product_data ad_concept d background_style False calls =
           (Inr (process_response lib b64decode False product_data ad_concept False r),
            calls @ [primary_request False prompt])"
  using assms request_response_baked_first [where be = be and calls = calls and prompt = prompt]
  by (simp add: generate_instagram_ad_def)

lemma generate_instagram_ad_baked_fallback:
  assumes "generation_prompt False product_data d background_style = Inr prompt"
    and "be calls (primary_request False prompt) = Inl e"
  shows "generate_instagram_ad lib b64decode be product_data ad_concept d background_style False calls =
           ((case be (calls @ [primary_request False prompt])
                    (fallback_request product_data d background_style) of
               Inl e' \<Rightarrow> Inr (RPair None False)
             | Inr r \<Rightarrow> Inr (process_response lib b64decode False product_data ad_concept True r)),
            calls @ [primary_request False prompt, fallback_request product_data d background_style])"
  using assms request_response_baked_fallback [where be = be and calls = calls and prompt = prompt]
  by (simp add: generate_instagram_ad_def split: sum.splits)


lemma fallback_no_text_line:
  "sublist ''- No text or watermarks on the image'' (fallback_prompt product_data d background_style)"
proof -
  let ?ls = "fallback_lines (get_or product_data ''title'' []) d background_style"
  let ?l = "''- No text or watermarks on the image (text will be added separately)''"
  have l: "sublist ''- No text or watermarks on the image'' ?l"
    using sublist_append_rightI
      [of "''- No text or watermarks on the image''" "'' (text will be added separately)''"]
    by simp
  have m: "?l \<in> set ?ls" by (simp add: fallback_lines_def)
  have n: "?ls \<noteq> []" by (simp add: fallback_lines_def)
  show ?thesis
    unfolding fallback_prompt_def fallback_stripped by (rule sublist_stripped [OF m l n])
qed

lemma fallback_lines_instructions:
  assumes "l \<in> set (text_instructions price)" and "l \<in> set (fallback_lines title d background_style)"
  shows "l = ''- '' @ background_style"
  using assms by (auto simp: text_instructions_def fallback_lines_def split: if_splits)

text \<open>
  C1. In mode 2, when the first call raises, exactly one more call is made: to the
  fallback model, with the rebuilt prompt. That prompt does not depend on the price, holds
  none of the lines that ask for text, price or call to action (unless the background
  style itself is such a line) and says that the image must carry no text. Every image
  such a run returns comes with the flag set.
\<close>

theorem text_baked_fallback_once:
  assumes "generation_prompt False product_data d background_style = Inr prompt"
    and "be calls (primary_request False prompt) = Inl e"
  shows "snd (generate_instagram_ad lib b64decode be product_data ad_concept d background_style
                False calls) =
           calls @ [primary_request False prompt, fallback_request product_data d background_style] \<and>
         model (fallback_request product_data d background_style) = FALLBACK_TEXT_TO_IMAGE_MODEL \<and>
         contents (fallback_request product_data d background_style) =
           py_strip (triple_quoted 20
             (fallback_lines (get_or product_data ''title'' []) d background_style)) \<and>
         fallback_prompt (product_data(''price'' := p)) d background_style =
           fallback_prompt product_data d background_style \<and>
         (\<forall>l\<in>set (text_instructions price).
            l \<in> set (fallback_lines (get_or product_data ''title'' []) d background_style) \<longrightarrow>
            l = ''- '' @ background_style) \<and>
         sublist ''- No text or watermarks on the image''
           (contents (fallback_request product_data d background_style)) \<and>
         (fst (generate_instagram_ad lib b64decode be product_data ad_concept d background_style
                 False calls) = Inr (RPair (Some img) flag) \<longrightarrow> flag)"
proof -
  note run = generate_instagram_ad_baked_fallback
    [where be = be and calls = calls and prompt = prompt and lib = lib and b64decode = b64decode
       and ad_concept = ad_concept, OF assms]
  have flag: "fst (generate_instagram_ad lib b64decode be product_data ad_concept d background_style
                 False calls) = Inr (RPair (Some img) flag) \<longrightarrow> flag"
    unfolding run by (auto split: sum.splits dest: process_response_flag)
  have calls: "snd (generate_instagram_ad lib b64decode be product_data ad_concept d background_style
                False calls) =
           calls @ [primary_request False prompt, fallback_request product_data d background_style]"
    unfolding run by simp
  have lines: "\<forall>l\<in>set (text_instructions price).
            l \<in> set (fallback_lines (get_or product_data ''title'' []) d background_style) \<longrightarrow>
            l = ''- '' @ background_style"
    using fallback_lines_instructions by blast
  show ?thesis
    using flag calls lines fallback_prompt_price [of product_data p d background_style]
      fallback_no_text_line [of product_data d background_style]
    by (simp add: fallback_request_def fallback_prompt_def)
qed


lemma raises_first_now: "raises_first r [] req = Inl (BackendError ''404 model not found'')"
  by (simp add: raises_first_def)

lemma raises_first_then: "raises_first r [req'] req = Inr (Some r)"
  by (simp add: raises_first_def)

lemma toy_image_response:
  "process_response toy_pil no_b64 False silla ad_concept True (Some image_response) =
     RPair (Some silla_ad) True"
proof -
  have "jpeg_bytes \<noteq> []" by (simp add: jpeg_bytes_def)
  then show ?thesis
    by (simp add: process_response_def image_response_def text_true_def blob_true_def
        decode_blob_def toy_overlay_silla Let_def)
qed

lemma toy_fallback_run:
  "fst (generate_instagram_ad toy_pil no_b64 (raises_first image_response) silla [] [] []
          False []) = Inr (RPair (Some silla_ad) True)"
  unfolding generate_instagram_ad_baked_fallback
    [where be = "raises_first image_response" and calls = "[]" and prompt = silla_baked_prompt,
     OF silla_baked_prompt_eq raises_first_now]
  by (simp add: raises_first_then toy_image_response)

theorem text_baked_fallback_once_witness:
  "generation_prompt False silla [] [] = Inr silla_baked_prompt \<and>
   raises_first image_response [] (primary_request False silla_baked_prompt) =
     Inl (BackendError ''404 model not found'') \<and>
   snd (generate_instagram_ad toy_pil no_b64 (raises_first image_response) silla [] [] [] False []) =
     [primary_request False silla_baked_prompt, fallback_request silla [] []] \<and>
   model (fallback_request silla [] []) = FALLBACK_TEXT_TO_IMAGE_MODEL \<and>
   fst (generate_instagram_ad toy_pil no_b64 (raises_first image_response) silla [] [] []
          False []) = Inr (RPair (Some silla_ad) True)"
  using text_baked_fallback_once
    [where be = "raises_first image_response" and calls = "[]" and product_data = silla
       and d = "[]" and background_style = "[]" and prompt = silla_baked_prompt
       and lib = toy_pil and b64decode = no_b64 and ad_concept = "[]",
     OF silla_baked_prompt_eq raises_first_now]
    silla_baked_prompt_eq raises_first_now [of image_response] toy_fallback_run
  by simp

text \<open>
  C2. In mode 1 the calls of a run are the configured request, followed by the bare one
  when it raised; the fallback request is not among them. When both raise, the run
  returns \<open>(None, False)\<close>, and no run returns a pair whose flag is set.
\<close>

theorem clean_mode_never_falls_back:
  assumes "generation_prompt True product_data d background_style = Inr prompt"
  shows "(\<exists>new. snd (generate_instagram_ad lib b64decode be product_data ad_concept d
                      background_style True calls) = calls @ new \<and>
            (new = [primary_request True prompt] \<or>
             new = [primary_request True prompt, bare_request prompt]) \<and>
            fallback_request product_data d background_style \<notin> set new) \<and>
         (isl (be calls (primary_request True prompt)) \<and>
          isl (be (calls @ [primary_request True prompt]) (bare_request prompt)) \<longrightarrow>
            fst (generate_instagram_ad lib b64decode be product_data ad_concept d
                   background_style True calls) = Inr (RPair None False)) \<and>
         fst (generate_instagram_ad lib b64decode be product_data ad_concept d
                background_style True calls) \<noteq> Inr (RPair x True)"
proof (cases "be calls (primary_request True prompt)")
  case (Inr r)
  note run = generate_instagram_ad_clean_first
    [where be = be and calls = calls and prompt = prompt and lib = lib and b64decode = b64decode
       and ad_concept = ad_concept, OF assms Inr]
  have "process_response lib b64decode True product_data ad_concept False r \<noteq> RPair x True"
    using process_response_flag by blast
  then show ?thesis
    unfolding run using Inr fallback_request_differs by simp
next
  case (Inl e)
  note run = generate_instagram_ad_clean_retry
    [where be = be and calls = calls and prompt = prompt and lib = lib and b64decode = b64decode
       and ad_concept = ad_concept, OF assms Inl]
  have "\<And>r. process_response lib b64decode True product_data ad_concept False r \<noteq> RPair x True"
    using process_response_flag by blast
  then show ?thesis
    unfolding run using Inl fallback_request_differs by (auto split: sum.splits)
qed

lemma always_raises_isl: "isl (always_raises calls req)"
  by (simp add: always_raises_def)

theorem clean_mode_never_falls_back_witness:
  "generation_prompt True silla [] [] = Inr silla_clean_prompt \<and>
   isl (always_raises [] (primary_request True silla_clean_prompt)) \<and>
   isl (always_raises [primary_request True silla_clean_prompt] (bare_request silla_clean_prompt)) \<and>
   fst (generate_instagram_ad toy_pil no_b64 always_raises silla [] [] [] True []) =
     Inr (RPair None False)"
  using clean_mode_never_falls_back
    [where be = always_raises and calls = "[]" and product_data = silla
       and d = "[]" and background_style = "[]" and prompt = silla_clean_prompt
       and lib = toy_pil and b64decode = no_b64 and ad_concept = "[]",
     OF silla_clean_prompt_eq]
    silla_clean_prompt_eq always_raises_isl
  by simp

text \<open>
  C3, as stated, fails in mode 2: with a backend that rejects every request, the run
  sends the configured primary request and the configured fallback request, no bare
  request, and fails.
\<close>

theorem baked_mode_sends_no_bare_request:
  "snd (generate_instagram_ad toy_pil no_b64 always_raises silla [] [] [] False []) =
     [primary_request False silla_baked_prompt, fallback_request silla [] []] \<and>
   config (primary_request False silla_baked_prompt) = Some baked_config \<and>
   config (fallback_request silla [] []) = Some baked_config \<and>
   fst (generate_instagram_ad toy_pil no_b64 always_raises silla [] [] [] False []) =
     Inr (RPair None False)"
proof -
  have r: "always_raises [] (primary_request False silla_baked_prompt) =
             Inl (BackendError ''503 UNAVAILABLE'')"
    by (simp add: always_raises_def)
  show ?thesis
    unfolding generate_instagram_ad_baked_fallback
      [where be = always_raises and calls = "[]" and prompt = silla_baked_prompt,
       OF silla_baked_prompt_eq r]
    by (simp add: always_raises_def primary_request_def fallback_request_def)
qed

text \<open>
  C3, amended. In mode 1 the configured request is sent first and, when the backend
  rejects it, the bare request (same model, same prompt, no configuration) once. In mode 2
  the configured request is sent once; when it raises, the configured fallback request
  is sent once; no bare request is sent. A request that is answered is the last one.
\<close>

theorem config_then_bare_pattern:
  assumes "generation_prompt use_text_overlay product_data d background_style = Inr prompt"
  shows "(use_text_overlay \<and> isl (be calls (primary_request True prompt)) \<longrightarrow>
            snd (generate_instagram_ad lib b64decode be product_data ad_concept d background_style
                   use_text_overlay calls) =
              calls @ [primary_request True prompt, bare_request prompt] \<and>
            config (primary_request True prompt) = Some clean_config \<and>
            model (bare_request prompt) = model (primary_request True prompt) \<and>
            contents (bare_request prompt) = contents (primary_request True prompt) \<and>
            config (bare_request prompt) = None) \<and>
         (\<not> use_text_overlay \<and> isl (be calls (primary_request False prompt)) \<longrightarrow>
            snd (generate_instagram_ad lib b64decode be product_data ad_concept d background_style
                   use_text_overlay calls) =
              calls @ [primary_request False prompt,
                       fallback_request product_data d background_style] \<and>
            config (primary_request False prompt) = Some baked_config \<and>
            config (fallback_request product_data d background_style) = Some baked_config) \<and>
         (\<not> isl (be calls (primary_request use_text_overlay prompt)) \<longrightarrow>
            snd (generate_instagram_ad lib b64decode be product_data ad_concept d background_style
                   use_text_overlay calls) =
              calls @ [primary_request use_text_overlay prompt])"
proof (cases use_text_overlay)
  case True
  have p: "generation_prompt True product_data d background_style = Inr prompt"
    using assms True by simp
  show ?thesis
  proof (cases "be calls (primary_request True prompt)")
    case (Inr r)
    note run = generate_instagram_ad_clean_first
      [where be = be and calls = calls and prompt = prompt and lib = lib
         and b64decode = b64decode and ad_concept = ad_concept,
       OF p Inr]
    show ?thesis using True Inr by (simp add: run)
  next
    case (Inl e)
    note run = generate_instagram_ad_clean_retry
      [where be = be and calls = calls and prompt = prompt and lib = lib
         and b64decode = b64decode and ad_concept = ad_concept,
       OF p Inl]
    show ?thesis using True Inl
      by (simp add: run primary_request_def bare_request_def selected_model_def)
  qed
next
  case False
  have p: "generation_prompt False product_data d background_style = Inr prompt"
    using assms False by simp
  show ?thesis
  proof (cases "be calls (primary_request False prompt)")
    case (Inr r)
    note run = generate_instagram_ad_baked_first
      [where be = be and calls = calls and prompt = prompt and lib = lib
         and b64decode = b64decode and ad_concept = ad_concept,
       OF p Inr]
    show ?thesis using False Inr by (simp add: run)
  next
    case (Inl e)
    note run = generate_instagram_ad_baked_fallback
      [where be = be and calls = calls and prompt = prompt and lib = lib
         and b64decode = b64decode and ad_concept = ad_concept,
       OF p Inl]
    show ?thesis using False Inl
      by (simp add: run primary_request_def fallback_request_def)
  qed
qed

theorem config_then_bare_pattern_witness:
  "generation_prompt True silla [] [] = Inr silla_clean_prompt \<and>
   isl (always_raises [] (primary_request True silla_clean_prompt)) \<and>
   snd (generate_instagram_ad toy_pil no_b64 always_raises silla [] [] [] True []) =
     [primary_request True silla_clean_prompt, bare_request silla_clean_prompt] \<and>
   config (bare_request silla_clean_prompt) = None"
  using config_then_bare_pattern
    [where be = always_raises and calls = "[]" and product_data = silla
       and d = "[]" and background_style = "[]" and prompt = silla_clean_prompt
       and lib = toy_pil and b64decode = no_b64 and ad_concept = "[]"
       and use_text_overlay = True,
     OF silla_clean_prompt_eq]
    silla_clean_prompt_eq always_raises_isl
  by simp

text \<open>
  C10. In mode 2, when the first call raises and the fallback call raises too, the run
  returns \<open>(None, False)\<close>: the flag set before the fallback call is not returned,
  although the fallback request was sent.
\<close>

theorem fallback_failure_drops_flag:
  assumes "generation_prompt False product_data d background_style = Inr prompt"
    and "be calls (primary_request False prompt) = Inl e1"
    and "be (calls @ [primary_request False prompt])
           (fallback_request product_data d background_style) = Inl e2"
  shows "fst (request_response be False product_data d background_style prompt calls) =
           (Inl e2, True) \<and>
         generate_instagram_ad lib b64decode be product_data ad_concept d background_style
           False calls =
           (Inr (RPair None False),
            calls @ [primary_request False prompt, fallback_request product_data d background_style])"
  using assms(3)
    request_response_baked_fallback
      [where be = be and calls = calls and prompt = prompt and product_data = product_data
         and d = d and background_style = background_style, OF assms(2)]
    generate_instagram_ad_baked_fallback
      [where be = be and calls = calls and prompt = prompt and lib = lib
         and b64decode = b64decode and ad_concept = ad_concept, OF assms(1,2)]
  by simp

theorem fallback_failure_drops_flag_witness:
  "generation_prompt False silla [] [] = Inr silla_baked_prompt \<and>
   always_raises [] (primary_request False silla_baked_prompt) =
     Inl (BackendError ''503 UNAVAILABLE'') \<and>
   always_raises [primary_request False silla_baked_prompt] (fallback_request silla [] []) =
     Inl (BackendError ''503 UNAVAILABLE'') \<and>
   fst (request_response always_raises False silla [] [] silla_baked_prompt []) =
     (Inl (BackendError ''503 UNAVAILABLE''), True) \<and>
   generate_instagram_ad toy_pil no_b64 always_raises silla [] [] [] False [] =
     (Inr (RPair None False),
      [primary_request False silla_baked_prompt, fallback_request silla [] []])"
proof -
  have r1: "always_raises [] (primary_request False silla_baked_prompt) =
     Inl (BackendError ''503 UNAVAILABLE'')"
    by (simp add: always_raises_def)
  have r2: "always_raises ([] @ [primary_request False silla_baked_prompt])
      (fallback_request silla [] []) = Inl (BackendError ''503 UNAVAILABLE'')"
    by (simp add: always_raises_def)
  show ?thesis
    using fallback_failure_drops_flag
      [where be = always_raises and calls = "[]" and product_data = silla and d = "[]"
         and background_style = "[]" and prompt = silla_baked_prompt and lib = toy_pil
         and b64decode = no_b64 and ad_concept = "[]",
       OF silla_baked_prompt_eq r1 r2]
      silla_baked_prompt_eq r1 r2
    by simp
qed

lemma always_returns_now: "always_returns r calls req = Inr (Some r)"
  by (simp add: always_returns_def)

text \<open>
  C6, as stated, fails for an empty parts sequence: the run returns the bare \<open>None\<close>,
  not the pair \<open>(None, False)\<close>.
\<close>

theorem empty_parts_gives_bare_none:
  "fst (generate_instagram_ad toy_pil no_b64 (always_returns empty_parts_response) silla [] [] []
          True []) = Inr RNone \<and>
   RNone \<noteq> RPair None False"
  unfolding generate_instagram_ad_clean_first
    [where be = "always_returns empty_parts_response" and calls = "[]"
       and prompt = silla_clean_prompt, OF silla_clean_prompt_eq always_returns_now]
  by (simp add: process_response_def empty_parts_response_def)

text \<open>
  C6, amended. When the call that succeeded returned a response whose first candidate has
  content with a non-empty parts sequence, none of which yields image bytes, the run
  returns the pair \<open>(None, used_fallback)\<close> with the flag as it stands. When the parts
  sequence is empty, the run returns the bare \<open>None\<close>, which carries no flag.
\<close>

theorem no_image_outcomes:
  assumes "generation_prompt use_text_overlay product_data d background_style = Inr prompt"
    and "request_response be use_text_overlay product_data d background_style prompt calls =
           ((Inr (Some (Response (Some (Candidate (Some (Content (Some ps))) # cs)))),
             used_fallback), calls')"
  shows "(ps \<noteq> [] \<and> (\<forall>p\<in>set ps. \<not> yields_image b64decode p) \<longrightarrow>
            fst (generate_instagram_ad lib b64decode be product_data ad_concept d background_style
                   use_text_overlay calls) = Inr (RPair None used_fallback)) \<and>
         (ps = [] \<longrightarrow>
            fst (generate_instagram_ad lib b64decode be product_data ad_concept d background_style
                   use_text_overlay calls) = Inr RNone)"
proof -
  have run: "fst (generate_instagram_ad lib b64decode be product_data ad_concept d background_style
                   use_text_overlay calls) =
      Inr (process_response lib b64decode use_text_overlay product_data ad_concept used_fallback
             (Some (Response (Some (Candidate (Some (Content (Some ps))) # cs)))))"
    using assms by (simp add: generate_instagram_ad_def)
  have empty: "ps = [] \<longrightarrow>
      process_response lib b64decode use_text_overlay product_data ad_concept used_fallback
        (Some (Response (Some (Candidate (Some (Content (Some ps))) # cs)))) = RNone"
    by (simp add: process_response_def)
  have none: "ps \<noteq> [] \<and> (\<forall>p\<in>set ps. \<not> yields_image b64decode p) \<longrightarrow>
      process_response lib b64decode use_text_overlay product_data ad_concept used_fallback
        (Some (Response (Some (Candidate (Some (Content (Some ps))) # cs)))) =
      RPair None used_fallback"
    by (cases ps)
      (simp_all add: process_response_def scan_parts_no_image del: scan_parts.simps)
  show ?thesis unfolding run using empty none by simp
qed

lemma text_only_no_image:
  "\<forall>p\<in>set [Part (Some ''No image today'') None]. \<not> yields_image no_b64 p"
  by (simp add: yields_image_def text_true_def)

theorem no_image_outcomes_witness:
  "generation_prompt True silla [] [] = Inr silla_clean_prompt \<and>
   request_response (always_returns text_only_response) True silla [] [] silla_clean_prompt [] =
     ((Inr (Some (Response (Some
         [Candidate (Some (Content (Some [Part (Some ''No image today'') None])))]))), False),
      [primary_request True silla_clean_prompt]) \<and>
   fst (generate_instagram_ad toy_pil no_b64 (always_returns text_only_response) silla [] [] []
          True []) = Inr (RPair None False)"
proof -
  have r: "request_response (always_returns text_only_response) True silla [] [] silla_clean_prompt [] =
     ((Inr (Some (Response (Some
         [Candidate (Some (Content (Some [Part (Some ''No image today'') None])))]))), False),
      [primary_request True silla_clean_prompt])"
    using request_response_clean_first
      [where be = "always_returns text_only_response" and calls = "[]"
         and prompt = silla_clean_prompt and product_data = silla and d = "[]"
         and background_style = "[]", OF always_returns_now]
    by (simp add: text_only_response_def)
  show ?thesis
    using no_image_outcomes
      [where be = "always_returns text_only_response" and calls = "[]" and product_data = silla
         and d = "[]" and background_style = "[]" and prompt = silla_clean_prompt
         and lib = toy_pil and b64decode = no_b64 and ad_concept = "[]"
         and use_text_overlay = True, OF silla_clean_prompt_eq r]
      silla_clean_prompt_eq r text_only_no_image
    by simp
qed

end
